theory Spec2Isabelle
  imports Main "HOL-Library.Word"
begin

unbundle bit_operations_syntax

section \<open>Machine integers\<close>

type_synonym u8 = "8 word"
type_synonym u16 = "16 word"
type_synonym u32 = "32 word"
type_synonym u64 = "64 word"

section \<open>Class debounce: the fixed-point low-pass filter (dcf77.cpp, lines 27-46)\<close>

definition FIXED_POINT_LOG2_BASE :: nat where
  "FIXED_POINT_LOG2_BASE = 7"

definition FIXED_POINT_BASE :: u8 where
  "FIXED_POINT_BASE = push_bit FIXED_POINT_LOG2_BASE 1"

text \<open>
  \<^verbatim>\<open>FLT_F1 = FIXED_POINT_BASE * 0.97\<close> is a compile-time constant: 128 * 0.97 = 124.16,
  truncated to the 8-bit value 124. The product is written here with the exact rational
  97/100 and the truncation as integer division.
\<close>

definition FLT_F1 :: u8 where
  "FLT_F1 = word_of_int ((uint FIXED_POINT_BASE * 97) div 100)"

definition FLT_F2 :: u8 where
  "FLT_F2 = FIXED_POINT_BASE - FLT_F1"

text \<open>
  The function \<^verbatim>\<open>filter\<close> of the source (renamed, since \<open>filter\<close> is the list function
  of HOL). The operands are converted to \<^verbatim>\<open>uint16_t\<close>; the largest intermediate value is
  255 * 124 + 512 = 32132, below \<open>2 ^ 15\<close>, so the 16-bit word computes what the source
  computes whether its \<^verbatim>\<open>int\<close> has 16 or 32 bits. The result is converted to
  \<^verbatim>\<open>uint8_t\<close>.
\<close>

definition filter_lp :: "bool \<Rightarrow> u8 \<Rightarrow> u8" where
  "filter_lp ctrl x =
     ucast (drop_bit FIXED_POINT_LOG2_BASE
       ((ucast x :: u16) * ucast FLT_F1 +
        (if ctrl then push_bit FIXED_POINT_LOG2_BASE (ucast FLT_F2) else 0)))"

lemma FLT_F1_eq: "FLT_F1 = 124"
  by (simp add: FLT_F1_def FIXED_POINT_BASE_def FIXED_POINT_LOG2_BASE_def)

lemma FLT_F2_eq: "FLT_F2 = 4"
  by (simp add: FLT_F2_def FLT_F1_def FIXED_POINT_BASE_def FIXED_POINT_LOG2_BASE_def)

lemma unat_u8_bound: "unat (x :: u8) < 256"
  using unsigned_less [of x] by simp

lemma unat_u16_bound: "unat (w :: u16) < 65536"
  using unsigned_less [of w] by simp

lemma take_bit_16_unat: "take_bit 16 (unat (w :: u16)) = unat w"
  using unat_u16_bound [of w] by (simp add: take_bit_nat_eq_self)

lemma unat_filter_lp:
  "unat (filter_lp c x) = (unat x * 124 + (if c then 512 else 0)) div 128"
proof -
  have x: "unat x < 256" by (rule unat_u8_bound)
  have u: "unat (ucast x :: u16) = unat x"
    using x by (simp add: unsigned_ucast_eq take_bit_eq_mod)
  have a: "unat ((ucast x :: u16) * 124 + (if c then 512 else 0))
             = unat x * 124 + (if c then 512 else 0)"
    using x by (simp add: unat_word_ariths u)
  have b: "(unat x * 124 + (if c then 512 else 0)) div 128 < 256"
    using x by auto
  have "unat (filter_lp c x) =
     take_bit 8 (drop_bit 7 (unat ((ucast x :: u16) * 124 + (if c then 512 else 0))))"
    unfolding filter_lp_def FLT_F1_eq FLT_F2_eq FIXED_POINT_LOG2_BASE_def
    by (simp add: unsigned_ucast_eq unsigned_drop_bit_eq take_bit_16_unat)
  also have "\<dots> = (unat x * 124 + (if c then 512 else 0)) div 128"
    unfolding a using b by (simp add: take_bit_eq_mod drop_bit_eq_div)
  finally show ?thesis .
qed

text \<open>
  \<^verbatim>\<open>filter_convergence\<close> iterates the filter until it no longer changes its argument.
  The recursion is not structural; it ends because the filter moves every value strictly
  towards the interval of its fixed points.
\<close>

function filter_convergence :: "bool \<Rightarrow> u8 \<Rightarrow> u8" where
  "filter_convergence ctrl x =
     (if filter_lp ctrl x = x then x else filter_convergence ctrl (filter_lp ctrl x))"
  by pat_completeness auto
termination
proof (relation "measure (\<lambda>(c, x). if c then (if unat x \<le> 97 then 97 - unat x else unat x)
                                   else unat x)", goal_cases)
  case 1
  show ?case by simp
next
  case (2 ctrl x)
  have x: "unat x < 256" by (rule unat_u8_bound)
  from 2 have "unat (filter_lp ctrl x) \<noteq> unat x"
    by (simp add: word_unat_eq_iff)
  then show ?case using x
    by (auto simp: unat_filter_lp split: if_splits)
qed

text \<open>The default argument of \<^verbatim>\<open>filter_convergence\<close> is \<^verbatim>\<open>FIXED_POINT_BASE / 2\<close>.\<close>

definition FLT_MAX :: u8 where
  "FLT_MAX = filter_convergence True (FIXED_POINT_BASE div 2)"

definition FLT_MIN :: u8 where
  "FLT_MIN = filter_convergence False (FIXED_POINT_BASE div 2)"

section \<open>Class debounce: state, constructor and sample (dcf77.cpp, lines 48-91)\<close>

text \<open>The structure \<^verbatim>\<open>debounce::result\<close> with its fields \<^verbatim>\<open>t\<close>, \<^verbatim>\<open>value\<close>, \<^verbatim>\<open>edge\<close>.\<close>

record debounce_result =
  r_t :: u16
  r_value :: bool
  r_edge :: bool

record debounce =
  m_low_pass :: u8
  m_last_t :: u16
  m_last_state_change :: u16
  m_hysteresis :: u8
  m_last_input_value :: bool
  m_result :: debounce_result

text \<open>
  The constructor. \<^verbatim>\<open>uint16_t(hysteresis) * (FLT_MAX - FLT_MIN)\<close> is computed in
  \<^verbatim>\<open>int\<close> (at most 255 * 255), shifted right by 8 and stored in a byte.
\<close>

definition debounce_init :: "u8 \<Rightarrow> debounce" where
  "debounce_init hysteresis =
     \<lparr> m_low_pass = FIXED_POINT_BASE div 2,
       m_last_t = 0,
       m_last_state_change = 0,
       m_hysteresis = word_of_int (drop_bit 8 (uint hysteresis * (uint FLT_MAX - uint FLT_MIN))),
       m_last_input_value = False,
       m_result = \<lparr> r_t = 0, r_value = False, r_edge = False \<rparr> \<rparr>"

text \<open>
  The loop of \<^verbatim>\<open>debounce::sample\<close>: at most \<open>dt\<close> filter steps, left as soon as a step
  does not change the accumulator. The first argument counts the iterations that remain
  (\<open>dt - i\<close>); \<^verbatim>\<open>lv\<close> equals \<^verbatim>\<open>m_low_pass\<close> at the head of every iteration.
\<close>

fun low_pass_loop :: "bool \<Rightarrow> nat \<Rightarrow> u8 \<Rightarrow> u8" where
  "low_pass_loop v 0 lp = lp"
| "low_pass_loop v (Suc n) lp =
     (let lp' = filter_lp v lp in if lp' = lp then lp' else low_pass_loop v n lp')"

text \<open>
  \<^verbatim>\<open>debounce::sample\<close> returns the result and the updated object. The two comparisons
  \<^verbatim>\<open>m_low_pass > FLT_MAX - m_hysteresis\<close> and \<^verbatim>\<open>m_low_pass < FLT_MIN + m_hysteresis\<close>
  are made in \<^verbatim>\<open>int\<close> after integer promotion, hence \<open>uint\<close>.
\<close>

definition debounce_sample :: "bool \<Rightarrow> u16 \<Rightarrow> debounce \<Rightarrow> debounce_result \<times> debounce" where
  "debounce_sample v t s =
     (let dt = t - m_last_t s;
          lp = low_pass_loop v (unat dt) (m_low_pass s);
          lsc = (if v \<noteq> m_last_input_value s then t else m_last_state_change s);
          r = m_result s;
          r' = (if uint lp > uint FLT_MAX - uint (m_hysteresis s) \<and> r_value r = False
                then \<lparr> r_t = lsc, r_value = True, r_edge = True \<rparr>
                else if uint lp < uint FLT_MIN + uint (m_hysteresis s) \<and> r_value r = True
                then \<lparr> r_t = lsc, r_value = False, r_edge = True \<rparr>
                else r \<lparr> r_edge := False \<rparr>)
      in (r', s \<lparr> m_low_pass := lp, m_last_t := t, m_last_state_change := lsc,
                  m_last_input_value := v, m_result := r' \<rparr>))"

text \<open>Feeding a trace of samples, oldest first; the results are collected in order.\<close>

fun debounce_run :: "debounce \<Rightarrow> (bool \<times> u16) list \<Rightarrow> debounce_result list \<times> debounce" where
  "debounce_run s [] = ([], s)"
| "debounce_run s ((v, t) # xs) =
     (let (r, s') = debounce_sample v t s; (rs, s'') = debounce_run s' xs in (r # rs, s''))"

section \<open>Union data (dcf77.hpp, lines 131-321; dcf77.cpp, lines 97-143)\<close>

text \<open>
  The union is its 64-bit member \<^verbatim>\<open>bitstream\<close>; the bit-fields of \<^verbatim>\<open>raw\<close> are views of
  it. Under \<^verbatim>\<open>#pragma pack(1)\<close> the fields are allocated without padding from the least
  significant bit, in declaration order: this is the layout in which bit \<open>i\<close>, written by
  the decoder for second \<open>i\<close>, lands in the field of the telegram that second belongs to,
  and the one the mask \<^verbatim>\<open>0x3FFFFF000000000\<close> of \<^verbatim>\<open>valid\<close> (bits 36 to 57: day, day of
  week, month, year) relies on.
\<close>

type_synonym data = u64

definition bitfield :: "nat \<Rightarrow> nat \<Rightarrow> data \<Rightarrow> u8" where
  "bitfield off width bitstream = ucast (take_bit width (drop_bit off bitstream))"

definition raw_minute_start :: "data \<Rightarrow> u8" where "raw_minute_start = bitfield 0 1"
definition raw_aux_data :: "data \<Rightarrow> u16" where
  "raw_aux_data bitstream = ucast (take_bit 14 (drop_bit 1 bitstream))"
definition raw_call_bit :: "data \<Rightarrow> u8" where "raw_call_bit = bitfield 15 1"
definition raw_dst_leap_hour :: "data \<Rightarrow> u8" where "raw_dst_leap_hour = bitfield 16 1"
definition raw_cest :: "data \<Rightarrow> u8" where "raw_cest = bitfield 17 1"
definition raw_cet :: "data \<Rightarrow> u8" where "raw_cet = bitfield 18 1"
definition raw_leap_second :: "data \<Rightarrow> u8" where "raw_leap_second = bitfield 19 1"
definition raw_time_start :: "data \<Rightarrow> u8" where "raw_time_start = bitfield 20 1"
definition raw_minute :: "data \<Rightarrow> u8" where "raw_minute = bitfield 21 7"
definition raw_parity_minute :: "data \<Rightarrow> u8" where "raw_parity_minute = bitfield 28 1"
definition raw_hour :: "data \<Rightarrow> u8" where "raw_hour = bitfield 29 6"
definition raw_parity_hour :: "data \<Rightarrow> u8" where "raw_parity_hour = bitfield 35 1"
definition raw_day :: "data \<Rightarrow> u8" where "raw_day = bitfield 36 6"
definition raw_day_of_week :: "data \<Rightarrow> u8" where "raw_day_of_week = bitfield 42 3"
definition raw_month :: "data \<Rightarrow> u8" where "raw_month = bitfield 45 5"
definition raw_year :: "data \<Rightarrow> u8" where "raw_year = bitfield 50 8"
definition raw_parity_date :: "data \<Rightarrow> u8" where "raw_parity_date = bitfield 58 1"
definition raw_leap_second_bit :: "data \<Rightarrow> u8" where "raw_leap_second_bit = bitfield 59 1"

text \<open>
  \<^verbatim>\<open>__builtin_popcount\<close> counts the set bits of an \<^verbatim>\<open>unsigned int\<close>, taken to be 32 bits
  wide; \<^verbatim>\<open>parity\<close> converts its argument to that type.
\<close>

definition popcount :: "u32 \<Rightarrow> nat" where
  "popcount x = length (filter (bit x) [0..<32])"

definition parity :: "u32 \<Rightarrow> u8" where
  "parity x = word_of_nat (popcount x) AND 1"

definition valid_bcd :: "u8 \<Rightarrow> u8 \<Rightarrow> u8 \<Rightarrow> bool" where
  "valid_bcd max_hi max_lo x =
     (let hi = drop_bit 4 (x AND 0xF0);
          lo = drop_bit 0 (x AND 0x0F)
      in if hi > 9 \<or> lo > 9 then False
         else if hi > max_hi then False
         else if hi = max_hi \<and> lo > max_lo then False
         else True)"

definition valid :: "bool \<Rightarrow> data \<Rightarrow> bool" where
  "valid time_and_date_only bitstream =
     ((time_and_date_only \<or> raw_minute_start bitstream = 0) \<and>
      (raw_time_start bitstream = 1) \<and>
      (time_and_date_only \<or> raw_cest bitstream \<noteq> raw_cet bitstream) \<and>
      (raw_parity_minute bitstream = parity (ucast (raw_minute bitstream))) \<and>
      (raw_parity_hour bitstream = parity (ucast (raw_hour bitstream))) \<and>
      (raw_parity_date bitstream =
         parity (ucast (drop_bit 32 (bitstream AND 0x3FFFFF000000000)))) \<and>
      valid_bcd 5 9 (raw_minute bitstream) \<and>
      valid_bcd 2 3 (raw_hour bitstream) \<and> valid_bcd 3 1 (raw_day bitstream) \<and>
      (raw_day bitstream > 0) \<and> (raw_day_of_week bitstream > 0) \<and>
      valid_bcd 1 2 (raw_month bitstream) \<and> (raw_month bitstream > 0) \<and>
      valid_bcd 9 9 (raw_year bitstream))"

definition decode_bcd :: "u8 \<Rightarrow> u8" where
  "decode_bcd v =
     (let res = v AND 0x0F;
          res = (if v AND 0x10 \<noteq> 0 then res + 10 else res);
          res = (if v AND 0x20 \<noteq> 0 then res + 20 else res);
          res = (if v AND 0x40 \<noteq> 0 then res + 40 else res);
          res = (if v AND 0x80 \<noteq> 0 then res + 80 else res)
      in res)"

definition minute :: "data \<Rightarrow> u8" where "minute d = decode_bcd (raw_minute d)"
definition hour :: "data \<Rightarrow> u8" where "hour d = decode_bcd (raw_hour d)"
definition day :: "data \<Rightarrow> u8" where "day d = decode_bcd (raw_day d)"
definition day_of_week :: "data \<Rightarrow> u8" where "day_of_week d = raw_day_of_week d"
definition month :: "data \<Rightarrow> u8" where "month d = decode_bcd (raw_month d)"
definition year :: "data \<Rightarrow> u16" where "year d = ucast (decode_bcd (raw_year d)) + 2000"

section \<open>Class decoder (dcf77.hpp, lines 329-441; dcf77.cpp, lines 149-190)\<close>

datatype state = no_result | invalid_result | has_time_and_date | has_complete

text \<open>The \<^verbatim>\<open>int8_t\<close> values of the enumerators, which \<^verbatim>\<open>res >= state::has_time_and_date\<close> compares.\<close>

fun state_value :: "state \<Rightarrow> int" where
  "state_value no_result = 0"
| "state_value invalid_result = -1"
| "state_value has_time_and_date = 1"
| "state_value has_complete = 2"

definition SLACK :: u16 where "SLACK = 50"
definition SYNC_HIGH_TIME :: u16 where "SYNC_HIGH_TIME = 1800"
definition LOW_ZERO_TIME :: u16 where "LOW_ZERO_TIME = 100"
definition LOW_ONE_TIME :: u16 where "LOW_ONE_TIME = 200"

text \<open>
  The member \<^verbatim>\<open>m_last_t\<close> of the decoder is named \<open>m_last_edge_t\<close> here, the name
  \<open>m_last_t\<close> being taken by the field of the debounce filter.
\<close>

record decoder =
  m_debouncer :: debounce
  m_phase :: u16
  m_last_edge_t :: u16
  m_data_new :: data
  m_data_current :: data
  m_state :: u8

definition decoder_init :: decoder where
  "decoder_init =
     \<lparr> m_debouncer = debounce_init 64, m_phase = 0, m_last_edge_t = 0,
       m_data_new = 0, m_data_current = 0, m_state = 0 \<rparr>"

definition get_phase :: "decoder \<Rightarrow> u16" where "get_phase d = m_phase d"
definition get_data :: "decoder \<Rightarrow> data" where "get_data d = m_data_current d"

text \<open>
  A left shift of a 64-bit value by 64 or more is undefined in C++. The sole shift whose
  amount is not bounded by the code around it is \<^verbatim>\<open>uint64_t(1) << m_state\<close>; the model
  gives it a branch of its own.
\<close>

datatype error = shift_out_of_range

text \<open>
  The block "Handle a sync event" of \<^verbatim>\<open>decoder::sample\<close> (lines 158-173). The shift
  amount \<open>59 - m_state\<close> lies between 1 and 59 there.
\<close>

definition handle_sync :: "u16 \<Rightarrow> decoder \<Rightarrow> state \<times> decoder" where
  "handle_sync event_t d =
     (let (res, d1) =
            (if m_state d < 59
             then (let d' = d \<lparr> m_data_new := push_bit (59 - unat (m_state d)) (m_data_new d) \<rparr>
                   in (if valid True (m_data_new d') then has_time_and_date else no_result, d'))
             else (if valid False (m_data_new d) then has_complete else no_result, d));
          d2 = (if state_value res \<ge> state_value has_time_and_date
                then d1 \<lparr> m_data_current := m_data_new d1, m_phase := event_t \<rparr>
                else d1)
      in (res, d2 \<lparr> m_state := 0, m_data_new := 0 \<rparr>))"

text \<open>The block "Rising edge" of \<^verbatim>\<open>decoder::sample\<close> (lines 177-185).\<close>

definition handle_rising :: "u16 \<Rightarrow> decoder \<Rightarrow> error + decoder" where
  "handle_rising dt d =
     (if uint dt > uint LOW_ZERO_TIME - uint SLACK
      then (if uint dt > uint LOW_ONE_TIME - uint SLACK
            then (if unat (m_state d) < 64
                  then Inr (d \<lparr> m_data_new := m_data_new d OR push_bit (unat (m_state d)) 1,
                                m_state := m_state d + 1 \<rparr>)
                  else Inl shift_out_of_range)
            else Inr (d \<lparr> m_state := m_state d + 1 \<rparr>))
      else Inr d)"

definition decoder_sample :: "bool \<Rightarrow> u16 \<Rightarrow> decoder \<Rightarrow> error + (state \<times> decoder)" where
  "decoder_sample v t d =
     (let (event, deb) = debounce_sample v t (m_debouncer d);
          d0 = d \<lparr> m_debouncer := deb \<rparr>
      in if r_edge event
         then (let dt = r_t event - m_last_edge_t d0;
                   (res, d1) =
                      (if \<not> r_value event \<and> uint dt > uint SYNC_HIGH_TIME - uint SLACK
                       then handle_sync (r_t event) d0
                       else (no_result, d0))
               in case (if r_value event then handle_rising dt d1 else Inr d1) of
                    Inl e \<Rightarrow> Inl e
                  | Inr d2 \<Rightarrow> Inr (res, d2 \<lparr> m_last_edge_t := r_t event \<rparr>))
         else Inr (no_result, d0))"

text \<open>
  Feeding a trace of samples to the decoder, oldest first. The run stops at the first
  call whose behaviour is undefined.
\<close>

fun decoder_run :: "decoder \<Rightarrow> (bool \<times> u16) list \<Rightarrow> error + (state list \<times> decoder)" where
  "decoder_run d [] = Inr ([], d)"
| "decoder_run d ((v, t) # xs) =
     (case decoder_sample v t d of
        Inl e \<Rightarrow> Inl e
      | Inr (r, d') \<Rightarrow>
          (case decoder_run d' xs of
             Inl e \<Rightarrow> Inl e
           | Inr (rs, d'') \<Rightarrow> Inr (r # rs, d'')))"

section \<open>Notions used to state the properties\<close>

text \<open>
  The number of ticks that pass while the samples of a trace are fed, starting from the
  timestamp \<open>t0\<close> of the previous call: every call advances the filter by the 16-bit
  difference of its timestamp to the previous one.
\<close>

fun elapsed :: "u16 \<Rightarrow> u16 list \<Rightarrow> nat" where
  "elapsed t0 [] = 0"
| "elapsed t0 (t # ts) = unat (t - t0) + elapsed t ts"

text \<open>The filter states that the constructor and calls of \<^verbatim>\<open>sample\<close> can produce.\<close>

inductive debounce_reachable :: "debounce \<Rightarrow> bool" where
  init: "debounce_reachable (debounce_init hysteresis)"
| step: "debounce_reachable s \<Longrightarrow> debounce_reachable (snd (debounce_sample v t s))"

text \<open>
  A telegram that passes the full validation (CET, 00:00, Monday 1 January of year 00), a
  filter that is one tick away from reporting the falling edge of tick 2000, and a decoder
  around that filter whose previous edge was at tick 100.
\<close>

definition example_telegram :: data where
  "example_telegram = 2^18 + 2^20 + 2^36 + 2^42 + 2^45 + 2^58"

definition example_debounce :: debounce where
  "example_debounce =
     \<lparr> m_low_pass = 24, m_last_t = 2030, m_last_state_change = 2000, m_hysteresis = 24,
       m_last_input_value = False,
       m_result = \<lparr> r_t = 100, r_value = True, r_edge = False \<rparr> \<rparr>"

definition example_decoder :: "data \<Rightarrow> u8 \<Rightarrow> decoder" where
  "example_decoder new n =
     \<lparr> m_debouncer = example_debounce, m_phase = 7, m_last_edge_t = 100,
       m_data_new = new, m_data_current = 5, m_state = n \<rparr>"

text \<open>
  A trace of \<open>n\<close> one-bit pulses without a minute boundary: the input is high from tick
  \<open>400 i + 200\<close> and low from tick \<open>400 i + 400\<close>, sampled once at each change. Every
  low phase lasts 200 ms (a one-bit), every high phase 200 ms (far below the 1750 ms of
  a boundary). \<open>quiet n\<close> and \<open>raised n\<close> describe the decoder after the low and the high
  phase of pulse \<open>n\<close>.
\<close>

fun one_pulses :: "nat \<Rightarrow> (bool \<times> u16) list" where
  "one_pulses 0 = []"
| "one_pulses (Suc n) =
     one_pulses n @ [(True, word_of_nat (400 * n + 200)), (False, word_of_nat (400 * n + 400))]"

definition quiet :: "nat \<Rightarrow> decoder \<Rightarrow> bool" where
  "quiet n d =
     (m_low_pass (m_debouncer d) \<le> 97 \<and> m_hysteresis (m_debouncer d) = 24 \<and>
      \<not> m_last_input_value (m_debouncer d) \<and> \<not> r_value (m_result (m_debouncer d)) \<and>
      m_last_t (m_debouncer d) = word_of_nat (400 * n) \<and>
      m_last_edge_t d = word_of_nat (400 * n) \<and>
      m_state d = word_of_nat n)"

definition raised :: "nat \<Rightarrow> decoder \<Rightarrow> bool" where
  "raised n d =
     (m_low_pass (m_debouncer d) \<le> 97 \<and> m_hysteresis (m_debouncer d) = 24 \<and>
      m_last_input_value (m_debouncer d) \<and> r_value (m_result (m_debouncer d)) \<and>
      m_last_t (m_debouncer d) = word_of_nat (400 * n + 200) \<and>
      m_last_edge_t d = word_of_nat (400 * n + 200) \<and>
      m_state d = word_of_nat (Suc n))"



text \<open>
  \<open>ticks v t n\<close> is a raw input trace sampled at every tick: \<open>n\<close> consecutive ticks from
  \<open>t\<close> on with raw input \<open>v\<close>.
\<close>

fun ticks :: "bool \<Rightarrow> u16 \<Rightarrow> nat \<Rightarrow> (bool \<times> u16) list" where
  "ticks v t 0 = []"
| "ticks v t (Suc n) = (v, t) # ticks v (t + 1) n"

text \<open>
  The measure of the hysteresis claim. The raw input flips to the level \<open>v\<close> at tick \<open>T\<close>;
  the filter is in state \<open>s\<close> when that sample arrives, and \<open>xs\<close> is the trace from that
  sample on. \<open>ticks_to_flip v T s xs\<close> is the number of calls of \<^verbatim>\<open>debounce::sample\<close>
  between the sample of the raw transition and the first call that reports the
  corresponding edge: an edge to the level \<open>v\<close> with timestamp \<open>T\<close>. It is \<open>None\<close> when no
  call of the trace reports that edge. On a trace \<open>ticks v T n\<close> call number \<open>k\<close> is made at
  tick \<open>T + k\<close>, so that the measure is the number of ticks between the raw transition and
  the tick at which the edge is reported.
\<close>

fun ticks_to_flip :: "bool \<Rightarrow> u16 \<Rightarrow> debounce \<Rightarrow> (bool \<times> u16) list \<Rightarrow> nat option" where
  "ticks_to_flip v T s [] = None"
| "ticks_to_flip v T s ((x, t) # xs) =
     (let (r, s') = debounce_sample x t s
      in if r_edge r \<and> r_value r = v \<and> r_t r = T then Some 0
         else map_option Suc (ticks_to_flip v T s' xs))"

text \<open>
  The number of bits that are set among the bits \<open>lo\<close> to \<open>hi - 1\<close> of a register; the
  even parity of that range is 1 when this number is odd.
\<close>

definition ones_in :: "data \<Rightarrow> nat \<Rightarrow> nat \<Rightarrow> nat" where
  "ones_in d lo hi = length (filter (bit d) [lo..<hi])"

text \<open>
  What the check \<^verbatim>\<open>valid_bcd<max_hi, max_lo>\<close> promises of a byte: both digits are at most
  9, the decoded value is at most \<open>m\<close>, and it is zero only for the byte 0.
\<close>

definition bcd_in_range :: "u8 \<Rightarrow> u8 \<Rightarrow> nat \<Rightarrow> u8 \<Rightarrow> bool" where
  "bcd_in_range max_hi max_lo m v =
     (\<not> valid_bcd max_hi max_lo v \<or>
      (v AND 0x0F \<le> 9 \<and> drop_bit 4 v \<le> 9 \<and> unat (decode_bcd v) \<le> m \<and>
       (v = 0 \<or> 0 < decode_bcd v)))"

section \<open>The low-pass filter and its convergence\<close>

lemma FLT_MAX_eq: "FLT_MAX = 97"
  unfolding FLT_MAX_def by code_simp

lemma FLT_MIN_eq: "FLT_MIN = 0"
  unfolding FLT_MIN_def by code_simp

lemma filter_lp_mono: "x \<le> y \<Longrightarrow> filter_lp c x \<le> filter_lp c y"
  by (simp add: word_le_nat_alt unat_filter_lp div_le_mono)

lemma low_pass_loop_funpow: "low_pass_loop v n lp = (filter_lp v ^^ n) lp"
proof (induction n arbitrary: lp)
  case 0
  show ?case by simp
next
  case (Suc n)
  have stay: "(filter_lp v ^^ k) lp = lp" if "filter_lp v lp = lp" for k
    using that by (induction k) simp_all
  show ?case
  proof (cases "filter_lp v lp = lp")
    case True
    then show ?thesis using stay [OF True, of "Suc n"] by (simp add: Let_def)
  next
    case False
    then show ?thesis using Suc.IH [of "filter_lp v lp"]
      by (simp add: Let_def funpow_swap1)
  qed
qed

lemma funpow_filter_mono: "x \<le> y \<Longrightarrow> (filter_lp c ^^ n) x \<le> (filter_lp c ^^ n) y"
  by (induction n) (simp_all add: filter_lp_mono)

lemma filter_up_58: "(filter_lp True ^^ 58) 0 = 97"
  by code_simp
lemma filter_down_58: "(filter_lp False ^^ 58) 97 = 0"
  by code_simp
lemma filter_fixed_max: "filter_lp True 97 = 97"
  by code_simp
lemma filter_fixed_min: "filter_lp False 0 = 0"
  by code_simp

lemma filter_lp_numeral:
  "filter_lp c x = word_of_nat ((unat x * 124 + (if c then 512 else 0)) div 128)"
proof -
  have "(unat x * 124 + (if c then 512 else 0)) div 128 < 256"
    using unat_u8_bound [of x] by auto
  then show ?thesis
    by (simp add: word_unat_eq_iff unat_filter_lp unat_of_nat)
qed

lemma filter_lp_le_max: "x \<le> 97 \<Longrightarrow> filter_lp c x \<le> 97"
  by (auto simp: word_le_nat_alt unat_filter_lp)

lemma funpow_filter_le_max: "x \<le> 97 \<Longrightarrow> (filter_lp c ^^ n) x \<le> 97"
  by (induction n) (simp_all add: filter_lp_le_max)

lemma m_low_pass_sample:
  "m_low_pass (snd (debounce_sample v t s)) = (filter_lp v ^^ unat (t - m_last_t s)) (m_low_pass s)"
  by (simp add: debounce_sample_def Let_def low_pass_loop_funpow)

lemma m_last_t_sample: "m_last_t (snd (debounce_sample v t s)) = t"
  by (simp add: debounce_sample_def Let_def)

lemma reachable_low_pass: "debounce_reachable s \<Longrightarrow> m_low_pass s \<le> 97"
proof (induction rule: debounce_reachable.induct)
  case (init hysteresis)
  show ?case by (simp add: debounce_init_def FIXED_POINT_BASE_def FIXED_POINT_LOG2_BASE_def)
next
  case (step s v t)
  then show ?case by (simp add: m_low_pass_sample funpow_filter_le_max)
qed

lemma funpow_fixed: "f x = x \<Longrightarrow> (f ^^ n) x = x"
  by (induction n) simp_all

lemma funpow_filter_converged:
  assumes "x \<le> 97" "58 \<le> n"
  shows "(filter_lp v ^^ n) x = (if v then 97 else 0)"
proof -
  obtain k where n: "n = k + 58" using assms(2) by (metis le_add_diff_inverse2)
  have a: "(filter_lp v ^^ 58) x = (if v then 97 else 0)"
  proof (cases v)
    case True
    have "(filter_lp True ^^ 58) 0 \<le> (filter_lp True ^^ 58) x"
      by (rule funpow_filter_mono) simp
    moreover have "(filter_lp True ^^ 58) x \<le> 97"
      using assms(1) by (rule funpow_filter_le_max)
    ultimately show ?thesis using True by (simp add: filter_up_58)
  next
    case False
    have "(filter_lp False ^^ 58) x \<le> (filter_lp False ^^ 58) 97"
      using assms(1) by (rule funpow_filter_mono)
    then show ?thesis using False by (simp add: filter_down_58)
  qed
  have "(filter_lp v ^^ n) x = (filter_lp v ^^ k) ((filter_lp v ^^ 58) x)"
    unfolding n by (simp add: funpow_add)
  also have "\<dots> = (if v then 97 else 0)"
    unfolding a by (cases v) (simp_all add: funpow_fixed filter_fixed_max filter_fixed_min)
  finally show ?thesis .
qed

lemma m_low_pass_run:
  "m_low_pass (snd (debounce_run s (map (Pair v) ts)))
     = (filter_lp v ^^ elapsed (m_last_t s) ts) (m_low_pass s)"
proof (induction ts arbitrary: s)
  case Nil
  show ?case by simp
next
  case (Cons t ts)
  obtain r s' where rs: "debounce_sample v t s = (r, s')" by (cases "debounce_sample v t s")
  have lp: "m_low_pass s' = (filter_lp v ^^ unat (t - m_last_t s)) (m_low_pass s)"
    using m_low_pass_sample [of v t s] rs by simp
  have lt: "m_last_t s' = t" using m_last_t_sample [of v t s] rs by simp
  show ?case using Cons.IH [of s'] rs lp lt
    by (simp add: split_beta funpow_add add.commute)
qed

text \<open>
  Claim C9. Held constant for at least 58 ticks, however the ticks are spread over the
  calls of \<^verbatim>\<open>debounce::sample\<close>, the input drives the accumulator of every reachable
  filter to \<open>FLT_MAX\<close> when it is true and to \<open>FLT_MIN\<close> when it is false; and both values
  are fixed points of the filter update: \<open>filter(true, FLT_MAX) = FLT_MAX\<close> and
  \<open>filter(false, FLT_MIN) = FLT_MIN\<close>.
\<close>

theorem filter_convergence_fixed_points:
  "(debounce_reachable s \<and> 58 \<le> elapsed (m_last_t s) ts \<longrightarrow>
      m_low_pass (snd (debounce_run s (map (Pair True) ts))) = FLT_MAX \<and>
      m_low_pass (snd (debounce_run s (map (Pair False) ts))) = FLT_MIN) \<and>
   filter_lp True FLT_MAX = FLT_MAX \<and> filter_lp False FLT_MIN = FLT_MIN"
  by (simp add: m_low_pass_run funpow_filter_converged reachable_low_pass
        FLT_MAX_eq FLT_MIN_eq filter_fixed_max filter_fixed_min)

theorem filter_convergence_fixed_points_witness:
  "debounce_reachable (debounce_init 64) \<and> 58 \<le> elapsed (m_last_t (debounce_init 64)) [20, 40, 60] \<and>
   m_low_pass (snd (debounce_run (debounce_init 64) (map (Pair True) [20, 40, 60]))) = FLT_MAX \<and>
   m_low_pass (snd (debounce_run (debounce_init 64) (map (Pair False) [20, 40, 60]))) = FLT_MIN"
proof -
  have r: "debounce_reachable (debounce_init 64)" by (rule debounce_reachable.init)
  have e: "58 \<le> elapsed (m_last_t (debounce_init 64)) [20, 40, 60]"
    by (simp add: debounce_init_def)
  show ?thesis
    using r e filter_convergence_fixed_points [of "debounce_init 64" "[20, 40, 60]"] by blast
qed

section \<open>Minute boundaries\<close>

lemma decoder_sample_sync:
  assumes "debounce_sample v t (m_debouncer d) = (event, deb)"
    and "r_edge event" and "\<not> r_value event"
    and "uint (r_t event - m_last_edge_t d) > uint SYNC_HIGH_TIME - uint SLACK"
  shows "decoder_sample v t d =
           Inr (fst (handle_sync (r_t event) (d \<lparr> m_debouncer := deb \<rparr>)),
                (snd (handle_sync (r_t event) (d \<lparr> m_debouncer := deb \<rparr>)))
                  \<lparr> m_last_edge_t := r_t event \<rparr>)"
  using assms by (simp add: decoder_sample_def Let_def split_beta)

lemma example_falling_edge:
  "debounce_sample False 2031 example_debounce =
     (\<lparr> r_t = 2000, r_value = False, r_edge = True \<rparr>,
      \<lparr> m_low_pass = 23, m_last_t = 2031, m_last_state_change = 2000, m_hysteresis = 24,
        m_last_input_value = False,
        m_result = \<lparr> r_t = 2000, r_value = False, r_edge = True \<rparr> \<rparr>)"
  by (simp add: example_debounce_def debounce_sample_def Let_def FLT_MAX_eq FLT_MIN_eq
        filter_lp_numeral)

lemma example_telegram_valid: "valid False example_telegram"
  by code_simp

text \<open>
  Claim C1. With 59 bits accumulated, a falling edge that comes more than
  \<open>SYNC_HIGH_TIME - SLACK\<close> after the previous edge, and a working register that passes
  \<open>valid(false)\<close>, the call returns \<open>has_complete\<close>, \<open>get_data()\<close> is the working register
  and \<open>get_phase()\<close> is the timestamp the falling edge reports.
\<close>

theorem sync_complete:
  assumes "debounce_sample v t (m_debouncer d) = (event, deb)"
    and "r_edge event" and "\<not> r_value event"
    and "uint (r_t event - m_last_edge_t d) > uint SYNC_HIGH_TIME - uint SLACK"
    and "m_state d = 59"
    and "valid False (m_data_new d)"
  shows "\<exists>d'. decoder_sample v t d = Inr (has_complete, d') \<and>
              get_data d' = m_data_new d \<and> get_phase d' = r_t event"
  using assms(5,6) unfolding decoder_sample_sync [OF assms(1-4)]
  by (simp add: handle_sync_def get_data_def get_phase_def)

theorem sync_complete_witness:
  "debounce_sample False 2031 (m_debouncer (example_decoder example_telegram 59))
     = (\<lparr> r_t = 2000, r_value = False, r_edge = True \<rparr>,
        snd (debounce_sample False 2031 example_debounce)) \<and>
   uint (2000 - m_last_edge_t (example_decoder example_telegram 59))
     > uint SYNC_HIGH_TIME - uint SLACK \<and>
   m_state (example_decoder example_telegram 59) = 59 \<and>
   valid False (m_data_new (example_decoder example_telegram 59)) \<and>
   (\<exists>d'. decoder_sample False 2031 (example_decoder example_telegram 59) = Inr (has_complete, d') \<and>
         get_data d' = example_telegram \<and> get_phase d' = 2000)"
proof -
  let ?d = "example_decoder example_telegram 59"
  let ?event = "\<lparr> r_t = 2000, r_value = False, r_edge = True \<rparr>"
  have e: "debounce_sample False 2031 (m_debouncer ?d)
             = (?event, snd (debounce_sample False 2031 example_debounce))"
    by (simp add: example_decoder_def example_falling_edge)
  have dt: "uint (r_t ?event - m_last_edge_t ?d) > uint SYNC_HIGH_TIME - uint SLACK"
    by (simp add: example_decoder_def SYNC_HIGH_TIME_def SLACK_def)
  have st: "m_state ?d = 59" by (simp add: example_decoder_def)
  have va: "valid False (m_data_new ?d)"
    by (simp add: example_decoder_def example_telegram_valid)
  show ?thesis
    using e dt st va sync_complete [OF e _ _ dt st va]
    by (simp add: example_decoder_def)
qed

text \<open>
  Claim C2. With fewer than 59 bits accumulated, the register is shifted left by
  \<open>59 - bit_index\<close>, the shifted register is validated with \<open>valid(true)\<close>, and the call
  returns \<open>has_time_and_date\<close> when that validation succeeds and \<open>no_result\<close> otherwise,
  never \<open>has_complete\<close>; on success the shifted register is the current record.
\<close>

theorem sync_partial:
  assumes "debounce_sample v t (m_debouncer d) = (event, deb)"
    and "r_edge event" and "\<not> r_value event"
    and "uint (r_t event - m_last_edge_t d) > uint SYNC_HIGH_TIME - uint SLACK"
    and "m_state d < 59"
  shows "\<exists>res d'. decoder_sample v t d = Inr (res, d') \<and>
           res = (if valid True (push_bit (59 - unat (m_state d)) (m_data_new d))
                  then has_time_and_date else no_result) \<and>
           res \<noteq> has_complete \<and>
           (valid True (push_bit (59 - unat (m_state d)) (m_data_new d)) \<longrightarrow>
              get_data d' = push_bit (59 - unat (m_state d)) (m_data_new d) \<and>
              get_phase d' = r_t event)"
  using assms(5) unfolding decoder_sample_sync [OF assms(1-4)]
  by (simp add: handle_sync_def get_data_def get_phase_def Let_def)

lemma example_partial_valid: "valid True (push_bit 20 (drop_bit 20 example_telegram))"
  by code_simp

theorem sync_partial_witness:
  "debounce_sample False 2031 (m_debouncer (example_decoder (drop_bit 20 example_telegram) 39))
     = (\<lparr> r_t = 2000, r_value = False, r_edge = True \<rparr>,
        snd (debounce_sample False 2031 example_debounce)) \<and>
   uint (2000 - m_last_edge_t (example_decoder (drop_bit 20 example_telegram) 39))
     > uint SYNC_HIGH_TIME - uint SLACK \<and>
   m_state (example_decoder (drop_bit 20 example_telegram) 39) < 59 \<and>
   valid True (push_bit 20 (drop_bit 20 example_telegram)) \<and>
   (\<exists>d'. decoder_sample False 2031 (example_decoder (drop_bit 20 example_telegram) 39)
            = Inr (has_time_and_date, d') \<and>
         get_data d' = push_bit 20 (drop_bit 20 example_telegram) \<and> get_phase d' = 2000)"
proof -
  let ?d = "example_decoder (drop_bit 20 example_telegram) 39"
  let ?event = "\<lparr> r_t = 2000, r_value = False, r_edge = True \<rparr>"
  have e: "debounce_sample False 2031 (m_debouncer ?d)
             = (?event, snd (debounce_sample False 2031 example_debounce))"
    by (simp add: example_decoder_def example_falling_edge)
  have dt: "uint (r_t ?event - m_last_edge_t ?d) > uint SYNC_HIGH_TIME - uint SLACK"
    by (simp add: example_decoder_def SYNC_HIGH_TIME_def SLACK_def)
  have st: "m_state ?d < 59" by (simp add: example_decoder_def)
  have sh: "59 - unat (m_state ?d) = 20" by (simp add: example_decoder_def)
  have nw: "m_data_new ?d = drop_bit 20 example_telegram" by (simp add: example_decoder_def)
  show ?thesis
    using e dt st example_partial_valid sync_partial [OF e _ _ dt st]
    unfolding sh nw by (auto simp: example_decoder_def)
qed

text \<open>
  Claim C6. A minute boundary whose validation fails returns \<open>no_result\<close> and leaves
  \<open>get_data()\<close> and \<open>get_phase()\<close> as they were.
\<close>

theorem sync_invalid_keeps_snapshot:
  assumes "debounce_sample v t (m_debouncer d) = (event, deb)"
    and "r_edge event" and "\<not> r_value event"
    and "uint (r_t event - m_last_edge_t d) > uint SYNC_HIGH_TIME - uint SLACK"
    and "if m_state d < 59
         then \<not> valid True (push_bit (59 - unat (m_state d)) (m_data_new d))
         else \<not> valid False (m_data_new d)"
  shows "\<exists>d'. decoder_sample v t d = Inr (no_result, d') \<and>
              get_data d' = get_data d \<and> get_phase d' = get_phase d"
  using assms(5) unfolding decoder_sample_sync [OF assms(1-4)]
  by (simp add: handle_sync_def get_data_def get_phase_def Let_def split: if_splits)

lemma zero_invalid: "\<not> valid False 0"
  by code_simp

theorem sync_invalid_keeps_snapshot_witness:
  "debounce_sample False 2031 (m_debouncer (example_decoder 0 59))
     = (\<lparr> r_t = 2000, r_value = False, r_edge = True \<rparr>,
        snd (debounce_sample False 2031 example_debounce)) \<and>
   uint (2000 - m_last_edge_t (example_decoder 0 59)) > uint SYNC_HIGH_TIME - uint SLACK \<and>
   \<not> m_state (example_decoder 0 59) < 59 \<and>
   \<not> valid False (m_data_new (example_decoder 0 59)) \<and>
   (\<exists>d'. decoder_sample False 2031 (example_decoder 0 59) = Inr (no_result, d') \<and>
         get_data d' = 5 \<and> get_phase d' = 7)"
proof -
  let ?d = "example_decoder 0 59"
  let ?event = "\<lparr> r_t = 2000, r_value = False, r_edge = True \<rparr>"
  have e: "debounce_sample False 2031 (m_debouncer ?d)
             = (?event, snd (debounce_sample False 2031 example_debounce))"
    by (simp add: example_decoder_def example_falling_edge)
  have dt: "uint (r_t ?event - m_last_edge_t ?d) > uint SYNC_HIGH_TIME - uint SLACK"
    by (simp add: example_decoder_def SYNC_HIGH_TIME_def SLACK_def)
  have st: "\<not> m_state ?d < 59" by (simp add: example_decoder_def)
  have va: "\<not> valid False (m_data_new ?d)"
    by (simp add: example_decoder_def zero_invalid)
  have c: "if m_state ?d < 59
         then \<not> valid True (push_bit (59 - unat (m_state ?d)) (m_data_new ?d))
         else \<not> valid False (m_data_new ?d)"
    using st va by simp
  show ?thesis
    using e dt st va sync_invalid_keeps_snapshot [OF e _ _ dt c]
    by (simp add: example_decoder_def get_data_def get_phase_def)
qed

section \<open>The results of the decoder\<close>

lemma handle_sync_result: "fst (handle_sync et d) \<in> {no_result, has_time_and_date, has_complete}"
  by (simp add: handle_sync_def Let_def split_beta)

lemma handle_rising_in_range:
  "unat (m_state d) < 64 \<Longrightarrow> \<exists>d'. handle_rising dt d = Inr d'"
  by (simp add: handle_rising_def)

lemma m_state_handle_sync: "m_state (snd (handle_sync et d)) = 0"
  by (simp add: handle_sync_def Let_def split_beta)

lemma decoder_sample_result:
  "decoder_sample v t d = Inr (res, d') \<Longrightarrow> res \<in> {no_result, has_time_and_date, has_complete}"
  using handle_sync_result [of "r_t (fst (debounce_sample v t (m_debouncer d)))"
          "d \<lparr> m_debouncer := snd (debounce_sample v t (m_debouncer d)) \<rparr>"]
  by (auto simp: decoder_sample_def Let_def split_beta split: if_splits sum.splits)

lemma decoder_sample_in_range:
  assumes "unat (m_state d) < 64"
  shows "\<exists>res d'. decoder_sample v t d = Inr (res, d')"
proof -
  let ?event = "fst (debounce_sample v t (m_debouncer d))"
  let ?d0 = "d \<lparr> m_debouncer := snd (debounce_sample v t (m_debouncer d)) \<rparr>"
  let ?dt = "r_t ?event - m_last_edge_t ?d0"
  show ?thesis
  proof (cases "r_edge ?event \<and> r_value ?event")
    case True
    have "unat (m_state ?d0) < 64" using assms by simp
    then obtain d2 where "handle_rising ?dt ?d0 = Inr d2"
      using handle_rising_in_range by blast
    then show ?thesis using True
      by (simp add: decoder_sample_def Let_def split_beta)
  next
    case False
    then show ?thesis
      by (auto simp: decoder_sample_def Let_def split_beta)
  qed
qed

text \<open>
  Claim C8. No call of \<^verbatim>\<open>decoder::sample\<close>, in any decoder state and for any input
  value and timestamp, returns \<open>invalid_result\<close>; a call made with a bit index below 64
  returns, and what it returns is \<open>no_result\<close>, \<open>has_time_and_date\<close> or \<open>has_complete\<close>.
\<close>

theorem never_invalid_result:
  "(\<forall>d'. decoder_sample v t d \<noteq> Inr (invalid_result, d')) \<and>
   (unat (m_state d) < 64 \<longrightarrow>
      (\<exists>res d'. decoder_sample v t d = Inr (res, d') \<and>
                res \<in> {no_result, has_time_and_date, has_complete}))"
proof (intro conjI allI impI)
  fix d'
  show "decoder_sample v t d \<noteq> Inr (invalid_result, d')"
    using decoder_sample_result [of v t d invalid_result d'] by auto
next
  assume "unat (m_state d) < 64"
  then obtain res d' where r: "decoder_sample v t d = Inr (res, d')"
    using decoder_sample_in_range by blast
  then show "\<exists>res d'. decoder_sample v t d = Inr (res, d') \<and>
                res \<in> {no_result, has_time_and_date, has_complete}"
    using decoder_sample_result [OF r] by blast
qed

theorem never_invalid_result_witness:
  "unat (m_state decoder_init) < 64 \<and>
   (\<exists>res d'. decoder_sample True 200 decoder_init = Inr (res, d') \<and>
             res \<in> {no_result, has_time_and_date, has_complete})"
proof -
  have h: "unat (m_state decoder_init) < 64" by (simp add: decoder_init_def)
  show ?thesis using h never_invalid_result [of True 200 decoder_init] by blast
qed

section \<open>Bit pulses\<close>

lemma debounce_sample_settled:
  assumes "m_low_pass s \<le> 97" and "58 \<le> unat (t - m_last_t s)"
  shows "debounce_sample v t s =
     (let lp = (if v then 97 else 0);
          lsc = (if v \<noteq> m_last_input_value s then t else m_last_state_change s);
          r = m_result s;
          r' = (if uint lp > uint FLT_MAX - uint (m_hysteresis s) \<and> r_value r = False
                then \<lparr> r_t = lsc, r_value = True, r_edge = True \<rparr>
                else if uint lp < uint FLT_MIN + uint (m_hysteresis s) \<and> r_value r = True
                then \<lparr> r_t = lsc, r_value = False, r_edge = True \<rparr>
                else r \<lparr> r_edge := False \<rparr>)
      in (r', s \<lparr> m_low_pass := lp, m_last_t := t, m_last_state_change := lsc,
                  m_last_input_value := v, m_result := r' \<rparr>))"
  unfolding debounce_sample_def low_pass_loop_funpow
  using funpow_filter_converged [OF assms, of v] by (simp add: Let_def)

lemma decoder_sample_rising:
  assumes "debounce_sample v t (m_debouncer d) = (event, deb)"
    and "r_edge event" and "r_value event"
  shows "decoder_sample v t d =
           (case handle_rising (r_t event - m_last_edge_t d) (d \<lparr> m_debouncer := deb \<rparr>) of
              Inl e \<Rightarrow> Inl e
            | Inr d2 \<Rightarrow> Inr (no_result, d2 \<lparr> m_last_edge_t := r_t event \<rparr>))"
  using assms by (simp add: decoder_sample_def Let_def split_beta split: sum.splits)

lemma decoder_sample_falling_short:
  assumes "debounce_sample v t (m_debouncer d) = (event, deb)"
    and "r_edge event" and "\<not> r_value event"
    and "\<not> uint (r_t event - m_last_edge_t d) > uint SYNC_HIGH_TIME - uint SLACK"
  shows "decoder_sample v t d =
           Inr (no_result, d \<lparr> m_debouncer := deb, m_last_edge_t := r_t event \<rparr>)"
  using assms by (simp add: decoder_sample_def Let_def split_beta)

lemma debounce_rising_settled:
  assumes "m_low_pass s \<le> 97" and "m_hysteresis s = 24" and "\<not> m_last_input_value s"
    and "\<not> r_value (m_result s)" and "58 \<le> unat (t - m_last_t s)"
  shows "debounce_sample True t s =
     (\<lparr> r_t = t, r_value = True, r_edge = True \<rparr>,
      s \<lparr> m_low_pass := 97, m_last_t := t, m_last_state_change := t,
          m_last_input_value := True,
          m_result := \<lparr> r_t = t, r_value = True, r_edge = True \<rparr> \<rparr>)"
  using assms(2-4) unfolding debounce_sample_settled [OF assms(1,5)]
  by (simp add: Let_def FLT_MAX_eq FLT_MIN_eq)

lemma debounce_falling_settled:
  assumes "m_low_pass s \<le> 97" and "m_hysteresis s = 24" and "m_last_input_value s"
    and "r_value (m_result s)" and "58 \<le> unat (t - m_last_t s)"
  shows "debounce_sample False t s =
     (\<lparr> r_t = t, r_value = False, r_edge = True \<rparr>,
      s \<lparr> m_low_pass := 0, m_last_t := t, m_last_state_change := t,
          m_last_input_value := False,
          m_result := \<lparr> r_t = t, r_value = False, r_edge = True \<rparr> \<rparr>)"
  using assms(2-4) unfolding debounce_sample_settled [OF assms(1,5)]
  by (simp add: Let_def FLT_MAX_eq FLT_MIN_eq)

lemma one_bit_pulse:
  assumes "m_low_pass (m_debouncer d) \<le> 97" and "m_hysteresis (m_debouncer d) = 24"
    and "\<not> m_last_input_value (m_debouncer d)" and "\<not> r_value (m_result (m_debouncer d))"
    and "t - m_last_t (m_debouncer d) = 200" and "t - m_last_edge_t d = 200"
  shows "decoder_sample True t d =
     (if unat (m_state d) < 64
      then Inr (no_result,
        d \<lparr> m_debouncer := (m_debouncer d)
               \<lparr> m_low_pass := 97, m_last_t := t, m_last_state_change := t,
                 m_last_input_value := True,
                 m_result := \<lparr> r_t = t, r_value = True, r_edge = True \<rparr> \<rparr>,
            m_data_new := m_data_new d OR push_bit (unat (m_state d)) 1,
            m_state := m_state d + 1,
            m_last_edge_t := t \<rparr>)
      else Inl shift_out_of_range)"
proof -
  have "58 \<le> unat (t - m_last_t (m_debouncer d))" using assms(5) by simp
  note ds = debounce_rising_settled [OF assms(1-4) this]
  show ?thesis
    unfolding decoder_sample_rising [OF ds, simplified]
    using assms(6)
    by (simp add: handle_rising_def LOW_ZERO_TIME_def LOW_ONE_TIME_def SLACK_def)
qed

lemma high_phase_end:
  assumes "m_low_pass (m_debouncer d) \<le> 97" and "m_hysteresis (m_debouncer d) = 24"
    and "m_last_input_value (m_debouncer d)" and "r_value (m_result (m_debouncer d))"
    and "t - m_last_t (m_debouncer d) = 200" and "t - m_last_edge_t d = 200"
  shows "decoder_sample False t d =
     Inr (no_result,
        d \<lparr> m_debouncer := (m_debouncer d)
               \<lparr> m_low_pass := 0, m_last_t := t, m_last_state_change := t,
                 m_last_input_value := False,
                 m_result := \<lparr> r_t = t, r_value = False, r_edge = True \<rparr> \<rparr>,
            m_last_edge_t := t \<rparr>)"
proof -
  have "58 \<le> unat (t - m_last_t (m_debouncer d))" using assms(5) by simp
  note ds = debounce_falling_settled [OF assms(1-4) this]
  have short: "\<not> uint (r_t \<lparr> r_t = t, r_value = False, r_edge = True \<rparr> - m_last_edge_t d)
                   > uint SYNC_HIGH_TIME - uint SLACK"
    using assms(6) by (simp add: SYNC_HIGH_TIME_def SLACK_def)
  show ?thesis
    unfolding decoder_sample_falling_short [OF ds _ _ short, simplified] by simp
qed

lemma rising_pulse:
  assumes "quiet n d" and "n < 64"
  shows "\<exists>d'. decoder_sample True (word_of_nat (400 * n + 200)) d = Inr (no_result, d') \<and> raised n d'"
proof -
  have st: "unat (m_state d) = n"
    using assms by (simp add: quiet_def unat_of_nat)
  have a: "m_low_pass (m_debouncer d) \<le> 97" "m_hysteresis (m_debouncer d) = 24"
    "\<not> m_last_input_value (m_debouncer d)" "\<not> r_value (m_result (m_debouncer d))"
    "word_of_nat (400 * n + 200) - m_last_t (m_debouncer d) = 200"
    "word_of_nat (400 * n + 200) - m_last_edge_t d = 200"
    using assms(1) by (simp_all add: quiet_def)
  show ?thesis
    unfolding one_bit_pulse [OF a] using st assms by (simp add: raised_def quiet_def)
qed

lemma falling_pulse:
  assumes "raised n d"
  shows "\<exists>d'. decoder_sample False (word_of_nat (400 * n + 400)) d = Inr (no_result, d') \<and>
              quiet (Suc n) d'"
proof -
  have a: "m_low_pass (m_debouncer d) \<le> 97" "m_hysteresis (m_debouncer d) = 24"
    "m_last_input_value (m_debouncer d)" "r_value (m_result (m_debouncer d))"
    "word_of_nat (400 * n + 400) - m_last_t (m_debouncer d) = 200"
    "word_of_nat (400 * n + 400) - m_last_edge_t d = 200"
    using assms(1) by (simp_all add: raised_def)
  show ?thesis
    unfolding high_phase_end [OF a] using assms by (simp add: raised_def quiet_def)
qed

lemma decoder_run_append:
  "decoder_run d (xs @ ys) =
     (case decoder_run d xs of
        Inl e \<Rightarrow> Inl e
      | Inr (rs, d') \<Rightarrow>
          (case decoder_run d' ys of
             Inl e \<Rightarrow> Inl e
           | Inr (rs', d'') \<Rightarrow> Inr (rs @ rs', d'')))"
  by (induction xs arbitrary: d) (auto split: sum.splits prod.splits)

lemma quiet_init: "quiet 0 decoder_init"
  by (simp add: quiet_def decoder_init_def debounce_init_def FLT_MAX_eq FLT_MIN_eq
        FIXED_POINT_BASE_def FIXED_POINT_LOG2_BASE_def drop_bit_eq_div)

lemma run_one_pulses:
  "n \<le> 64 \<Longrightarrow> \<exists>rs d'. decoder_run decoder_init (one_pulses n) = Inr (rs, d') \<and> quiet n d'"
proof (induction n)
  case 0
  show ?case using quiet_init by simp
next
  case (Suc n)
  then obtain rs d1 where r1: "decoder_run decoder_init (one_pulses n) = Inr (rs, d1)"
    and q1: "quiet n d1" by auto
  have n: "n < 64" using Suc.prems by simp
  obtain d2 where r2: "decoder_sample True (word_of_nat (400 * n + 200)) d1 = Inr (no_result, d2)"
    and q2: "raised n d2" using rising_pulse [OF q1 n] by blast
  obtain d3 where r3: "decoder_sample False (word_of_nat (400 * n + 400)) d2 = Inr (no_result, d3)"
    and q3: "quiet (Suc n) d3" using falling_pulse [OF q2] by blast
  show ?case using r1 r2 r3 q3 by (simp add: decoder_run_append)
qed

lemma overflow_pulse:
  assumes "quiet 64 d"
  shows "decoder_sample True 25800 d = Inl shift_out_of_range"
proof -
  have st: "unat (m_state d) = 64"
    using assms by (simp add: quiet_def)
  have a: "m_low_pass (m_debouncer d) \<le> 97" "m_hysteresis (m_debouncer d) = 24"
    "\<not> m_last_input_value (m_debouncer d)" "\<not> r_value (m_result (m_debouncer d))"
    "25800 - m_last_t (m_debouncer d) = 200"
    "25800 - m_last_edge_t d = 200"
    using assms(1) by (simp_all add: quiet_def)
  show ?thesis
    unfolding one_bit_pulse [OF a] using st by simp
qed

lemma run_overflow:
  "decoder_run decoder_init (one_pulses 64 @ [(True, 25800)]) = Inl shift_out_of_range"
proof -
  obtain rs d where r: "decoder_run decoder_init (one_pulses 64) = Inr (rs, d)"
    and q: "quiet 64 d" using run_one_pulses [of 64] by auto
  show ?thesis
    unfolding decoder_run_append r using overflow_pulse [OF q] by simp
qed


text \<open>
  While the bit index is below 64 a rising edge is handled as follows: a low phase of at
  most \<open>LOW_ZERO_TIME - SLACK\<close> is ignored; a longer one of at most \<open>LOW_ONE_TIME - SLACK\<close>
  leaves the working register as it is and advances the bit index; a still longer one sets
  bit \<open>bit_index\<close> and advances the bit index.
\<close>

lemma rising_edge_in_range:
  assumes "debounce_sample v t (m_debouncer d) = (event, deb)"
    and "r_edge event" and "r_value event"
  shows
    "(uint (r_t event - m_last_edge_t d) \<le> uint LOW_ZERO_TIME - uint SLACK \<longrightarrow>
        (\<exists>d'. decoder_sample v t d = Inr (no_result, d') \<and>
              m_data_new d' = m_data_new d \<and> m_state d' = m_state d)) \<and>
     (uint LOW_ZERO_TIME - uint SLACK < uint (r_t event - m_last_edge_t d) \<and>
      uint (r_t event - m_last_edge_t d) \<le> uint LOW_ONE_TIME - uint SLACK \<longrightarrow>
        (\<exists>d'. decoder_sample v t d = Inr (no_result, d') \<and>
              m_data_new d' = m_data_new d \<and> m_state d' = m_state d + 1)) \<and>
     (uint LOW_ONE_TIME - uint SLACK < uint (r_t event - m_last_edge_t d) \<and>
      unat (m_state d) < 64 \<longrightarrow>
        (\<exists>d'. decoder_sample v t d = Inr (no_result, d') \<and>
              m_data_new d' = m_data_new d OR push_bit (unat (m_state d)) 1 \<and>
              bit (m_data_new d') (unat (m_state d)) \<and>
              m_state d' = m_state d + 1))"
  unfolding decoder_sample_rising [OF assms]
  by (simp add: handle_rising_def LOW_ZERO_TIME_def LOW_ONE_TIME_def SLACK_def
        bit_or_iff bit_exp_iff)

lemma run_64_pulses: "map_sum id (m_state \<circ> snd) (decoder_run decoder_init (one_pulses 64)) = Inr 64"
proof -
  obtain rs d where r: "decoder_run decoder_init (one_pulses 64) = Inr (rs, d)"
    and q: "quiet 64 d" using run_one_pulses [of 64] by auto
  show ?thesis unfolding r using q by (simp add: quiet_def)
qed

text \<open>
  Claim C7: a rising edge that follows a low phase longer than \<open>LOW_ONE_TIME - SLACK\<close> sets
  bit \<open>bit_index\<close> of the working register to 1 and increments \<open>bit_index\<close> by one. The code
  does not do so on the following input. A fresh decoder is fed 64 one-bit pulses without
  a minute boundary (low from tick \<open>400 i + 400\<close>, high from tick \<open>400 i + 200\<close>), which all
  calls accept and which bring the bit index to 64; the input then rises again at tick
  25800, 200 ms after the last falling edge. The call for that rising edge executes
  \<^verbatim>\<open>uint64_t(1) << m_state\<close> with \<open>m_state = 64\<close>, a shift by the width of the register,
  whose behaviour is undefined: no bit of the register is set and no bit index results.
\<close>

theorem one_bit_at_index_64_is_undefined:
  "map_sum id (m_state \<circ> snd) (decoder_run decoder_init (one_pulses 64)) = Inr 64 \<and>
   decoder_run decoder_init (one_pulses 64 @ [(True, 25800)]) = Inl shift_out_of_range"
  using run_64_pulses run_overflow by simp







section \<open>Phase recovery\<close>

lemma init_64:
  "debounce_init 64 = \<lparr> m_low_pass = 64, m_last_t = 0, m_last_state_change = 0,
     m_hysteresis = 24, m_last_input_value = False,
     m_result = \<lparr> r_t = 0, r_value = False, r_edge = False \<rparr> \<rparr>"
  by (simp add: debounce_init_def FLT_MAX_eq FLT_MIN_eq drop_bit_eq_div FIXED_POINT_BASE_def
        FIXED_POINT_LOG2_BASE_def)

lemma init_128:
  "debounce_init 128 = \<lparr> m_low_pass = 64, m_last_t = 0, m_last_state_change = 0,
     m_hysteresis = 48, m_last_input_value = False,
     m_result = \<lparr> r_t = 0, r_value = False, r_edge = False \<rparr> \<rparr>"
  by (simp add: debounce_init_def FLT_MAX_eq FLT_MIN_eq drop_bit_eq_div FIXED_POINT_BASE_def
        FIXED_POINT_LOG2_BASE_def)

lemma ticks_numeral: "ticks v t (numeral k) = (v, t) # ticks v (t + 1) (pred_numeral k)"
  by (simp add: numeral_eq_Suc)

lemma funpow_down_100: "(filter_lp False ^^ 100) 64 = 0"
  by code_simp

lemma funpow_down_5: "(filter_lp False ^^ 5) 64 = 54"
  by code_simp

lemma funpow_up_5: "(filter_lp True ^^ 5) 54 = 64"
  by code_simp

lemma funpow_up_40: "(filter_lp True ^^ 40) 64 = 97"
  by code_simp

lemma low_pass_loop_1: "low_pass_loop v (Suc 0) lp = filter_lp v lp"
  by (simp add: Let_def)

lemmas eval_sample = debounce_sample_def Let_def FLT_MAX_eq FLT_MIN_eq filter_lp_numeral
  low_pass_loop_1

lemma settle_64:
  "debounce_sample False 100 (debounce_init 64) =
    (\<lparr> r_t = 0, r_value = False, r_edge = False \<rparr>,
     \<lparr> m_low_pass = 0, m_last_t = 100, m_last_state_change = 0,
       m_hysteresis = 24, m_last_input_value = False,
       m_result = \<lparr> r_t = 0, r_value = False, r_edge = False \<rparr> \<rparr>)"
  by (simp add: init_64 debounce_sample_def Let_def FLT_MAX_eq FLT_MIN_eq
        low_pass_loop_funpow funpow_down_100)

lemma settle_128:
  "debounce_sample False 100 (debounce_init 128) =
    (\<lparr> r_t = 0, r_value = False, r_edge = False \<rparr>,
     \<lparr> m_low_pass = 0, m_last_t = 100, m_last_state_change = 0,
       m_hysteresis = 48, m_last_input_value = False,
       m_result = \<lparr> r_t = 0, r_value = False, r_edge = False \<rparr> \<rparr>)"
  by (simp add: init_128 debounce_sample_def Let_def FLT_MAX_eq FLT_MIN_eq
        low_pass_loop_funpow funpow_down_100)

lemma debounce_run_append:
  "debounce_run s (xs @ ys) =
     (fst (debounce_run s xs) @ fst (debounce_run (snd (debounce_run s xs)) ys),
      snd (debounce_run (snd (debounce_run s xs)) ys))"
  by (induction xs arbitrary: s) (auto simp: split_beta)

lemma sample_edge_timestamp:
  "r_edge (fst (debounce_sample v t s)) \<Longrightarrow>
     r_t (fst (debounce_sample v t s)) = m_last_state_change (snd (debounce_sample v t s))"
  by (auto simp: debounce_sample_def Let_def split: if_splits)

lemma sample_last_state_change:
  "m_last_state_change (snd (debounce_sample v t s)) =
     (if v \<noteq> m_last_input_value s then t else m_last_state_change s)"
  by (simp add: debounce_sample_def Let_def)

lemma sample_last_input_value: "m_last_input_value (snd (debounce_sample v t s)) = v"
  by (simp add: debounce_sample_def Let_def)

lemma run_constant_edge_timestamp:
  assumes "\<forall>x\<in>set ys. fst x = v" and "m_last_input_value s = v" and "ys \<noteq> []"
    and "r_edge (last (fst (debounce_run s ys)))"
  shows "r_t (last (fst (debounce_run s ys))) = m_last_state_change s"
  using assms
proof (induction ys arbitrary: s)
  case Nil
  then show ?case by simp
next
  case (Cons y ys)
  obtain t where y: "y = (v, t)" using Cons.prems(1) by (cases y) auto
  let ?s' = "snd (debounce_sample v t s)"
  have keep: "m_last_state_change ?s' = m_last_state_change s" "m_last_input_value ?s' = v"
    using Cons.prems(2) by (simp_all add: sample_last_state_change sample_last_input_value)
  show ?case
  proof (cases "ys = []")
    case True
    then show ?thesis using Cons.prems(4) keep sample_edge_timestamp [of v t s]
      by (simp add: y split_beta)
  next
    case False
    have "fst (debounce_run ?s' ys) \<noteq> []"
      using False by (cases ys) (auto simp: split_beta)
    then have l: "last (fst (debounce_run s (y # ys))) = last (fst (debounce_run ?s' ys))"
      by (simp add: y split_beta)
    have "r_t (last (fst (debounce_run ?s' ys))) = m_last_state_change ?s'"
      using Cons.IH [of ?s'] Cons.prems(1,4) keep(2) False l by simp
    then show ?thesis using l keep(1) by simp
  qed
qed

text \<open>
  Claim C4. In a trace whose raw input last flips at tick \<open>T\<close> (the sample at \<open>T\<close> differs
  from the one before it, the samples after it do not), an edge reported by the last
  call, at whatever tick that call is made, carries the timestamp \<open>T\<close>.
\<close>

theorem edge_timestamp_is_raw_flip:
  assumes "m_last_input_value (snd (debounce_run s xs)) \<noteq> v"
    and "\<forall>x\<in>set ys. fst x = v"
    and "r_edge (last (fst (debounce_run s (xs @ (v, T) # ys))))"
  shows "r_t (last (fst (debounce_run s (xs @ (v, T) # ys)))) = T"
proof -
  let ?s1 = "snd (debounce_run s xs)"
  have a: "\<forall>x\<in>set ((v, T) # ys). fst x = v" using assms(2) by simp
  have l: "last (fst (debounce_run s (xs @ (v, T) # ys))) = last (fst (debounce_run ?s1 ((v, T) # ys)))"
    by (simp add: debounce_run_append split_beta)
  let ?s2 = "snd (debounce_sample v T ?s1)"
  have s2: "m_last_state_change ?s2 = T" "m_last_input_value ?s2 = v"
    using assms(1) by (simp_all add: sample_last_state_change sample_last_input_value)
  show ?thesis
  proof (cases "ys = []")
    case True
    then show ?thesis using assms(3) s2 sample_edge_timestamp [of v T ?s1] l
      by (simp add: split_beta)
  next
    case False
    have "fst (debounce_run ?s2 ys) \<noteq> []"
      using False by (cases ys) (auto simp: split_beta)
    then have l2: "last (fst (debounce_run ?s1 ((v, T) # ys))) = last (fst (debounce_run ?s2 ys))"
      by (simp add: split_beta)
    have "r_edge (last (fst (debounce_run ?s2 ys)))" using assms(3) l l2 by simp
    then have "r_t (last (fst (debounce_run ?s2 ys))) = m_last_state_change ?s2"
      using run_constant_edge_timestamp [OF assms(2) s2(2) False] by simp
    then show ?thesis using l l2 s2(1) by simp
  qed
qed

lemma example_trace_run:
  "fst (debounce_run (debounce_init 64) [(False, 5), (True, 10), (True, 50)]) =
     [\<lparr> r_t = 0, r_value = False, r_edge = False \<rparr>,
      \<lparr> r_t = 0, r_value = False, r_edge = False \<rparr>,
      \<lparr> r_t = 10, r_value = True, r_edge = True \<rparr>]"
  by (simp add: init_64 debounce_sample_def Let_def FLT_MAX_eq FLT_MIN_eq
        low_pass_loop_funpow funpow_down_5 funpow_up_5 funpow_up_40)

theorem edge_timestamp_is_raw_flip_witness:
  "m_last_input_value (snd (debounce_run (debounce_init 64) [(False, 5)])) \<noteq> True \<and>
   map fst [(True, 50 :: u16)] = [True] \<and>
   r_edge (last (fst (debounce_run (debounce_init 64)
                  ([(False, 5)] @ (True, 10) # [(True, 50)])))) \<and>
   r_t (last (fst (debounce_run (debounce_init 64)
                  ([(False, 5)] @ (True, 10) # [(True, 50)])))) = 10"
proof -
  have a: "m_last_input_value (snd (debounce_run (debounce_init 64) [(False, 5)])) \<noteq> True"
    by (simp add: split_beta sample_last_input_value)
  have b: "\<forall>x\<in>set [(True, 50 :: u16)]. fst x = True" by simp
  have c: "r_edge (last (fst (debounce_run (debounce_init 64)
                  ([(False, 5)] @ (True, 10) # [(True, 50)]))))"
    using example_trace_run by simp
  show ?thesis
    using a c edge_timestamp_is_raw_flip [OF a b c] by simp
qed

section \<open>Hysteresis\<close>

lemma flip_step:
  assumes "m_low_pass b = m_low_pass a" and "m_last_t b = m_last_t a"
    and "m_last_state_change b = m_last_state_change a"
    and "m_last_input_value b = m_last_input_value a"
    and "m_hysteresis a \<le> m_hysteresis b"
    and "r_value (m_result b) = v \<longrightarrow> r_value (m_result a) = v"
  shows "m_low_pass (snd (debounce_sample x t b)) = m_low_pass (snd (debounce_sample x t a))"
    and "m_last_t (snd (debounce_sample x t b)) = m_last_t (snd (debounce_sample x t a))"
    and "m_last_state_change (snd (debounce_sample x t b))
           = m_last_state_change (snd (debounce_sample x t a))"
    and "m_last_input_value (snd (debounce_sample x t b))
           = m_last_input_value (snd (debounce_sample x t a))"
    and "m_hysteresis (snd (debounce_sample x t a)) = m_hysteresis a"
    and "m_hysteresis (snd (debounce_sample x t b)) = m_hysteresis b"
    and "m_result (snd (debounce_sample x t a)) = fst (debounce_sample x t a)"
    and "m_result (snd (debounce_sample x t b)) = fst (debounce_sample x t b)"
    and "(r_edge (fst (debounce_sample x t b)) \<and> r_value (fst (debounce_sample x t b)) = v) \<or>
         (\<not> (r_edge (fst (debounce_sample x t a)) \<and> r_value (fst (debounce_sample x t a)) = v) \<and>
          (r_value (fst (debounce_sample x t b)) = v
             \<longrightarrow> r_value (fst (debounce_sample x t a)) = v))"
proof -
  have u: "uint (m_hysteresis a) \<le> uint (m_hysteresis b)"
    using assms(5) by (simp add: word_le_def)
  show "m_low_pass (snd (debounce_sample x t b)) = m_low_pass (snd (debounce_sample x t a))"
    and "m_last_t (snd (debounce_sample x t b)) = m_last_t (snd (debounce_sample x t a))"
    and "m_last_state_change (snd (debounce_sample x t b))
           = m_last_state_change (snd (debounce_sample x t a))"
    and "m_last_input_value (snd (debounce_sample x t b))
           = m_last_input_value (snd (debounce_sample x t a))"
    and "m_hysteresis (snd (debounce_sample x t a)) = m_hysteresis a"
    and "m_hysteresis (snd (debounce_sample x t b)) = m_hysteresis b"
    and "m_result (snd (debounce_sample x t a)) = fst (debounce_sample x t a)"
    and "m_result (snd (debounce_sample x t b)) = fst (debounce_sample x t b)"
    using assms(1-4) by (simp_all add: debounce_sample_def Let_def)
  show "(r_edge (fst (debounce_sample x t b)) \<and> r_value (fst (debounce_sample x t b)) = v) \<or>
         (\<not> (r_edge (fst (debounce_sample x t a)) \<and> r_value (fst (debounce_sample x t a)) = v) \<and>
          (r_value (fst (debounce_sample x t b)) = v
             \<longrightarrow> r_value (fst (debounce_sample x t a)) = v))"
    using assms(1,2,6) u
    by (cases v) (auto simp: debounce_sample_def Let_def split: if_splits)
qed


lemma ticks_to_flip_Cons:
  "ticks_to_flip v T s ((x, t) # xs) =
     (if r_edge (fst (debounce_sample x t s)) \<and> r_value (fst (debounce_sample x t s)) = v \<and>
         r_t (fst (debounce_sample x t s)) = T
      then Some 0
      else map_option Suc (ticks_to_flip v T (snd (debounce_sample x t s)) xs))"
  by (simp add: split_beta)

lemma ticks_constant: "\<forall>x\<in>set (ticks v t n). fst x = v"
  by (induction n arbitrary: t) simp_all

lemma flip_mono:
  assumes "\<forall>x\<in>set xs. fst x = v"
    and "m_low_pass b = m_low_pass a" and "m_last_t b = m_last_t a"
    and "m_last_state_change b = m_last_state_change a"
    and "m_last_input_value b = m_last_input_value a"
    and "m_hysteresis a \<le> m_hysteresis b"
    and "r_value (m_result b) = v \<longrightarrow> r_value (m_result a) = v"
    and "m_last_input_value a = v \<and> m_last_state_change a = T \<or>
         m_last_input_value a \<noteq> v \<and> (\<exists>ys. xs = (v, T) # ys)"
    and "ticks_to_flip v T a xs = Some k1"
  shows "\<exists>k2. ticks_to_flip v T b xs = Some k2 \<and> k2 \<le> k1"
  using assms
proof (induction xs arbitrary: a b k1)
  case Nil
  then show ?case by simp
next
  case (Cons y xs)
  obtain t where y: "y = (v, t)" using Cons.prems(1) by (cases y) auto
  let ?ra = "fst (debounce_sample v t a)" and ?a' = "snd (debounce_sample v t a)"
  let ?rb = "fst (debounce_sample v t b)" and ?b' = "snd (debounce_sample v t b)"
  note st = flip_step [OF Cons.prems(2-7), of v t]
  have lsc: "m_last_state_change ?a' = T" "m_last_input_value ?a' = v"
    using Cons.prems(8) by (auto simp: y sample_last_state_change sample_last_input_value)
  have lscb: "m_last_state_change ?b' = T" using st(3) lsc(1) by simp
  have ta: "r_edge ?ra \<Longrightarrow> r_t ?ra = T"
    using sample_edge_timestamp [of v t a] lsc(1) by simp
  have tb: "r_edge ?rb \<Longrightarrow> r_t ?rb = T"
    using sample_edge_timestamp [of v t b] lscb by simp
  show ?case
  proof (cases "r_edge ?rb \<and> r_value ?rb = v")
    case True
    then show ?thesis using tb by (simp add: y split_beta)
  next
    case False
    then have na: "\<not> (r_edge ?ra \<and> r_value ?ra = v)"
      and keep: "r_value ?rb = v \<longrightarrow> r_value ?ra = v"
      using st(9) by blast+
    from na obtain k where k: "ticks_to_flip v T ?a' xs = Some k" "k1 = Suc k"
      using Cons.prems(9) by (auto simp: y split_beta)
    have "\<exists>k2. ticks_to_flip v T ?b' xs = Some k2 \<and> k2 \<le> k"
    proof (rule Cons.IH [OF _ _ _ _ _ _ _ _ k(1)])
      show "\<forall>x\<in>set xs. fst x = v" using Cons.prems(1) by simp
      show "m_low_pass ?b' = m_low_pass ?a'" by (rule st(1))
      show "m_last_t ?b' = m_last_t ?a'" by (rule st(2))
      show "m_last_state_change ?b' = m_last_state_change ?a'" by (rule st(3))
      show "m_last_input_value ?b' = m_last_input_value ?a'" by (rule st(4))
      show "m_hysteresis ?a' \<le> m_hysteresis ?b'" using st(5,6) Cons.prems(6) by simp
      show "r_value (m_result ?b') = v \<longrightarrow> r_value (m_result ?a') = v"
        using keep st(7,8) by simp
      show "m_last_input_value ?a' = v \<and> m_last_state_change ?a' = T \<or>
            m_last_input_value ?a' \<noteq> v \<and> (\<exists>ys. xs = (v, T) # ys)"
        using lsc by simp
    qed
    then obtain k2 where "ticks_to_flip v T ?b' xs = Some k2" "k2 \<le> k" by blast
    then show ?thesis using False k(2) by (auto simp: y split_beta)
  qed
qed

lemma unat_init_hysteresis:
  "unat (m_hysteresis (debounce_init h)) = (unat h * 97) div 256"
proof -
  have "unat h < 256" by (rule unat_u8_bound)
  then have b: "(unat h * 97) div 256 < 256" by auto
  have "uint h * 97 div 256 = int ((unat h * 97) div 256)"
    by (simp add: zdiv_int)
  then show ?thesis using b
    by (simp add: debounce_init_def FLT_MAX_eq FLT_MIN_eq drop_bit_eq_div unat_of_nat
          word_of_int_nat)
qed

lemma init_hysteresis_mono:
  "h1 \<le> h2 \<Longrightarrow> m_hysteresis (debounce_init h1) \<le> m_hysteresis (debounce_init h2)"
  by (simp add: word_le_nat_alt unat_init_hysteresis div_le_mono)

text \<open>
  Claim C3, as amended. Two filters constructed with hysteresis parameters \<open>h1 \<le> h2\<close> are
  in the same state but for their hysteresis when the raw input flips to the level \<open>v\<close> at
  tick \<open>T\<close>, and the raw input stays at \<open>v\<close> for the \<open>n\<close> ticks from \<open>T\<close> on. If the filter with
  \<open>h1\<close> reports the corresponding edge \<open>k1\<close> ticks after the raw transition, the filter with
  \<open>h2\<close> reports it after \<open>k2 \<le> k1\<close> ticks: increasing the hysteresis parameter never
  increases the number of ticks needed to register a flip.
\<close>

theorem hysteresis_flips_no_later:
  assumes "h1 \<le> h2"
    and "m_hysteresis s = m_hysteresis (debounce_init h1)"
    and "m_last_input_value s \<noteq> v"
    and "ticks_to_flip v T s (ticks v T n) = Some k1"
  shows "\<exists>k2. ticks_to_flip v T (s \<lparr> m_hysteresis := m_hysteresis (debounce_init h2) \<rparr>)
                (ticks v T n) = Some k2 \<and> k2 \<le> k1"
proof -
  let ?b = "s \<lparr> m_hysteresis := m_hysteresis (debounce_init h2) \<rparr>"
  obtain m where n: "n = Suc m" using assms(4) by (cases n) simp_all
  have tr: "ticks v T n = (v, T) # ticks v (T + 1) m" by (simp add: n)
  show ?thesis
  proof (rule flip_mono [OF _ _ _ _ _ _ _ _ assms(4)])
    show "\<forall>x\<in>set (ticks v T n). fst x = v" by (rule ticks_constant)
    show "m_low_pass ?b = m_low_pass s" by simp
    show "m_last_t ?b = m_last_t s" by simp
    show "m_last_state_change ?b = m_last_state_change s" by simp
    show "m_last_input_value ?b = m_last_input_value s" by simp
    show "m_hysteresis s \<le> m_hysteresis ?b"
      using init_hysteresis_mono [OF assms(1)] assms(2) by simp
    show "r_value (m_result ?b) = v \<longrightarrow> r_value (m_result s) = v" by simp
    show "m_last_input_value s = v \<and> m_last_state_change s = T \<or>
          m_last_input_value s \<noteq> v \<and> (\<exists>ys. ticks v T n = (v, T) # ys)"
      using assms(3) tr by simp
  qed
qed

lemma flip_after_settle_64:
  "ticks_to_flip True 101 \<lparr> m_low_pass = 0, m_last_t = 100, m_last_state_change = 0,
       m_hysteresis = 24, m_last_input_value = False,
       m_result = \<lparr> r_t = 0, r_value = False, r_edge = False \<rparr> \<rparr> (ticks True 101 40) = Some 34"
  by (simp add: ticks_to_flip_Cons ticks_numeral eval_sample del: ticks_to_flip.simps(2)
        split del: if_split)

lemma flip_after_settle_128:
  "ticks_to_flip True 101 \<lparr> m_low_pass = 0, m_last_t = 100, m_last_state_change = 0,
       m_hysteresis = 48, m_last_input_value = False,
       m_result = \<lparr> r_t = 0, r_value = False, r_edge = False \<rparr> \<rparr> (ticks True 101 40) = Some 18"
  by (simp add: ticks_to_flip_Cons ticks_numeral eval_sample del: ticks_to_flip.simps(2)
        split del: if_split)

lemma flip_example_64:
  "ticks_to_flip True 101 (snd (debounce_sample False 100 (debounce_init 64))) (ticks True 101 40)
     = Some 34"
  by (simp only: settle_64 snd_conv flip_after_settle_64)

lemma flip_example_128:
  "ticks_to_flip True 101 (snd (debounce_sample False 100 (debounce_init 128))) (ticks True 101 40)
     = Some 18"
  by (simp only: settle_128 snd_conv flip_after_settle_128)

lemma init_hysteresis_64: "m_hysteresis (debounce_init 64) = 24"
  by (simp add: init_64)

lemma init_hysteresis_128: "m_hysteresis (debounce_init 128) = 48"
  by (simp add: init_128)

lemma settled_states_differ_in_hysteresis:
  "snd (debounce_sample False 100 (debounce_init 128)) =
     (snd (debounce_sample False 100 (debounce_init 64)))
       \<lparr> m_hysteresis := m_hysteresis (debounce_init 128) \<rparr>"
  by (simp add: settle_64 settle_128 init_hysteresis_128)

theorem hysteresis_flips_no_later_witness:
  "(64 :: u8) \<le> 128 \<and>
   m_hysteresis (snd (debounce_sample False 100 (debounce_init 64)))
     = m_hysteresis (debounce_init 64) \<and>
   m_last_input_value (snd (debounce_sample False 100 (debounce_init 64))) \<noteq> True \<and>
   ticks_to_flip True 101 (snd (debounce_sample False 100 (debounce_init 64))) (ticks True 101 40)
     = Some 34 \<and>
   (\<exists>k2. ticks_to_flip True 101
           ((snd (debounce_sample False 100 (debounce_init 64)))
              \<lparr> m_hysteresis := m_hysteresis (debounce_init 128) \<rparr>)
           (ticks True 101 40) = Some k2 \<and> k2 \<le> 34)"
proof -
  let ?s = "snd (debounce_sample False 100 (debounce_init 64))"
  have a: "(64 :: u8) \<le> 128" by simp
  have b: "m_hysteresis ?s = m_hysteresis (debounce_init 64)"
    by (simp add: settle_64 init_hysteresis_64)
  have c: "m_last_input_value ?s \<noteq> True" by (simp add: settle_64)
  note d = flip_example_64
  show ?thesis
    using a b c d hysteresis_flips_no_later [OF a b c d] by blast
qed

text \<open>
  Claim C3 as stated fails. Two filters, constructed with hysteresis 64 and 128, are fed a
  low raw input up to tick 100, where both have settled at \<open>FLT_MIN\<close> with a low output and
  differ in their hysteresis only; the raw input is high from tick 101 on. The filter with
  hysteresis 64 reports the rising edge of tick 101 after 34 ticks, the filter with
  hysteresis 128 after 18 ticks.
\<close>

theorem hysteresis_flips_sooner_counterexample:
  "(64 :: u8) < 128 \<and>
   snd (debounce_sample False 100 (debounce_init 128)) =
     (snd (debounce_sample False 100 (debounce_init 64)))
       \<lparr> m_hysteresis := m_hysteresis (debounce_init 128) \<rparr> \<and>
   m_last_input_value (snd (debounce_sample False 100 (debounce_init 64))) = False \<and>
   ticks_to_flip True 101 (snd (debounce_sample False 100 (debounce_init 64))) (ticks True 101 40)
     = Some 34 \<and>
   ticks_to_flip True 101 (snd (debounce_sample False 100 (debounce_init 128))) (ticks True 101 40)
     = Some 18"
  using settled_states_differ_in_hysteresis flip_example_64 flip_example_128
  by (simp add: settle_64)

text \<open>
  The two filters have to be in the same state when the raw transition occurs. A filter
  starts with its accumulator at the midpoint 64; with hysteresis 128 that is above the
  rising threshold \<open>FLT_MAX - 48\<close>, so that the first call switches the output to high
  whatever the raw input is. Fed one low sample at tick 1 and a raw input that is high
  from tick 2 on, the filter with hysteresis 128 therefore reports no edge for the raw
  transition of tick 2 in the 40 ticks that follow, while the filter with hysteresis 64
  reports it after 9 ticks.
\<close>

lemma early_64:
  "debounce_sample False 1 (debounce_init 64) =
    (\<lparr> r_t = 0, r_value = False, r_edge = False \<rparr>,
     \<lparr> m_low_pass = 62, m_last_t = 1, m_last_state_change = 0,
       m_hysteresis = 24, m_last_input_value = False,
       m_result = \<lparr> r_t = 0, r_value = False, r_edge = False \<rparr> \<rparr>)"
  by (simp add: init_64 eval_sample)

lemma early_128:
  "debounce_sample False 1 (debounce_init 128) =
    (\<lparr> r_t = 0, r_value = True, r_edge = True \<rparr>,
     \<lparr> m_low_pass = 62, m_last_t = 1, m_last_state_change = 0,
       m_hysteresis = 48, m_last_input_value = False,
       m_result = \<lparr> r_t = 0, r_value = True, r_edge = True \<rparr> \<rparr>)"
  by (simp add: init_128 eval_sample)

lemma flip_after_early_64:
  "ticks_to_flip True 2 \<lparr> m_low_pass = 62, m_last_t = 1, m_last_state_change = 0,
       m_hysteresis = 24, m_last_input_value = False,
       m_result = \<lparr> r_t = 0, r_value = False, r_edge = False \<rparr> \<rparr> (ticks True 2 40) = Some 9"
  by (simp add: ticks_to_flip_Cons ticks_numeral eval_sample del: ticks_to_flip.simps(2)
        split del: if_split)

lemma flip_after_early_128:
  "ticks_to_flip True 2 \<lparr> m_low_pass = 62, m_last_t = 1, m_last_state_change = 0,
       m_hysteresis = 48, m_last_input_value = False,
       m_result = \<lparr> r_t = 0, r_value = True, r_edge = True \<rparr> \<rparr> (ticks True 2 40) = None"
  by (simp add: ticks_to_flip_Cons ticks_numeral eval_sample del: ticks_to_flip.simps(2)
        split del: if_split)

lemma flip_needs_common_state:
  "fst (debounce_sample False 1 (debounce_init 128)) = \<lparr> r_t = 0, r_value = True, r_edge = True \<rparr> \<and>
   ticks_to_flip True 2 (snd (debounce_sample False 1 (debounce_init 128))) (ticks True 2 40) = None \<and>
   ticks_to_flip True 2 (snd (debounce_sample False 1 (debounce_init 64))) (ticks True 2 40) = Some 9"
  by (simp only: early_64 early_128 fst_conv snd_conv flip_after_early_64 flip_after_early_128)

section \<open>Validation of a telegram\<close>

lemma bitfield_bit: "bit (bitfield off w d) i \<longleftrightarrow> i < 8 \<and> i < w \<and> bit d (off + i)"
  by (simp add: bitfield_def bit_ucast_iff bit_take_bit_iff bit_drop_bit_eq)

lemma bitfield_1: "bitfield off 1 d = of_bool (bit d off)"
  by (rule bit_word_eqI) (auto simp: bitfield_bit bit_of_bool_iff)

lemma count_shift:
  "length (filter (\<lambda>i. P (k + i)) [a..<b]) = length (filter P [k + a..<k + b])"
  by (induction b) simp_all

lemma filter_upt_bound:
  assumes "w \<le> n"
  shows "filter (\<lambda>i. i < w \<and> P i) [0..<n] = filter P [0..<w]"
proof -
  have "[0..<n] = [0..<w] @ [w..<n]"
    using assms upt_add_eq_append [of 0 w "n - w"] by simp
  then show ?thesis by (auto intro: filter_cong simp: filter_empty_conv)
qed

lemma filter_upt_lower:
  assumes "a \<le> n"
  shows "filter (\<lambda>i. a \<le> i \<and> P i) [0..<n] = filter P [a..<n]"
proof -
  have "[0..<n] = [0..<a] @ [a..<n]"
    using assms upt_add_eq_append [of 0 a "n - a"] by simp
  then show ?thesis by (auto intro: filter_cong simp: filter_empty_conv)
qed

lemma popcount_bitfield:
  assumes "w \<le> 8"
  shows "popcount (ucast (bitfield off w d)) = ones_in d off (off + w)"
proof -
  have "bit (ucast (bitfield off w d) :: u32) = (\<lambda>i. i < w \<and> bit d (off + i))"
    using assms by (auto simp: fun_eq_iff bit_ucast_iff bitfield_bit)
  then have "popcount (ucast (bitfield off w d)) = length (filter (\<lambda>i. bit d (off + i)) [0..<w])"
    using assms by (simp add: popcount_def filter_upt_bound)
  then show ?thesis by (simp add: ones_in_def count_shift)
qed

lemma parity_eq: "parity x = of_bool (odd (popcount x))"
  by (rule bit_word_eqI) (auto simp: parity_def bit_simps bit_1_iff bit_0)

lemma parity_bit_iff:
  assumes "w \<le> 8"
  shows "(bitfield p 1 d = parity (ucast (bitfield off w d)))
           \<longleftrightarrow> (bit d p \<longleftrightarrow> odd (ones_in d off (off + w)))"
  unfolding bitfield_1 parity_eq popcount_bitfield [OF assms] by simp

lemma date_mask: "(0x3FFFFF000000000 :: u64) = push_bit 36 (mask 22)"
  by (simp add: mask_eq_exp_minus_1 push_bit_eq_mult)

lemma popcount_date:
  "popcount (ucast (drop_bit 32 (d AND 0x3FFFFF000000000))) = ones_in d 36 58"
proof -
  have "bit (ucast (drop_bit 32 (d AND 0x3FFFFF000000000)) :: u32)
          = (\<lambda>i. i < 26 \<and> (4 \<le> i \<and> bit d (32 + i)))"
    unfolding date_mask
    by (auto simp: fun_eq_iff bit_ucast_iff bit_drop_bit_eq bit_and_iff bit_push_bit_iff
          bit_mask_iff dest: bit_imp_le_length)
  then have "popcount (ucast (drop_bit 32 (d AND 0x3FFFFF000000000)))
               = length (filter (\<lambda>i. bit d (32 + i)) [4..<26])"
    by (simp add: popcount_def filter_upt_bound filter_upt_lower)
  then show ?thesis by (simp add: ones_in_def count_shift)
qed

lemma u8_all:
  assumes "list_all (\<lambda>n. P (word_of_nat n :: u8)) [0..<256]"
  shows "P v"
proof -
  have "unat v < 256" using unsigned_less [of v] by simp
  moreover have "\<forall>n<256. P (word_of_nat n)" using assms by (simp add: list_all_iff)
  ultimately have "P (word_of_nat (unat v))" by blast
  then show ?thesis by simp
qed

lemma bcd_minute: "bcd_in_range 5 9 59 v"
  by (rule u8_all) code_simp

lemma bcd_hour: "bcd_in_range 2 3 23 v"
  by (rule u8_all) code_simp

lemma bcd_day: "bcd_in_range 3 1 31 v"
  by (rule u8_all) code_simp

lemma bcd_month: "bcd_in_range 1 2 12 v"
  by (rule u8_all) code_simp

lemma bcd_year: "bcd_in_range 9 9 99 v"
  by (rule u8_all) code_simp

lemma of_bool_cases: "(of_bool a :: u8) \<noteq> of_bool b \<Longrightarrow>
    (of_bool a :: u8) = 1 \<and> (of_bool b :: u8) = 0 \<or> (of_bool a :: u8) = 0 \<and> (of_bool b :: u8) = 1"
  by (cases a; cases b) simp_all

lemma u8_pos: "0 < (v :: u8) \<Longrightarrow> 1 \<le> unat v"
  by (simp add: word_less_nat_alt)

text \<open>
  Claim C5. A register that passes \<open>valid(false)\<close> has minute-start bit 0 and time-start bit
  1, exactly one of the CEST and CET bits set, each of its three parity bits equal to the
  even parity of the bits it covers (21 to 27, 29 to 34, 36 to 57), both digits of every
  BCD field at most 9, and decoded values with minute at most 59, hour at most 23, day
  from 1 to 31, day of week at least 1, month from 1 to 12 and two-digit year at most 99.
\<close>

theorem valid_telegram_fields:
  assumes "valid False d"
  shows "raw_minute_start d = 0 \<and> raw_time_start d = 1 \<and>
     (raw_cest d = 1 \<and> raw_cet d = 0 \<or> raw_cest d = 0 \<and> raw_cet d = 1) \<and>
     raw_parity_minute d = (if odd (ones_in d 21 28) then 1 else 0) \<and>
     raw_parity_hour d = (if odd (ones_in d 29 35) then 1 else 0) \<and>
     raw_parity_date d = (if odd (ones_in d 36 58) then 1 else 0) \<and>
     raw_minute d AND 0x0F \<le> 9 \<and> drop_bit 4 (raw_minute d) \<le> 9 \<and>
     raw_hour d AND 0x0F \<le> 9 \<and> drop_bit 4 (raw_hour d) \<le> 9 \<and>
     raw_day d AND 0x0F \<le> 9 \<and> drop_bit 4 (raw_day d) \<le> 9 \<and>
     raw_month d AND 0x0F \<le> 9 \<and> drop_bit 4 (raw_month d) \<le> 9 \<and>
     raw_year d AND 0x0F \<le> 9 \<and> drop_bit 4 (raw_year d) \<le> 9 \<and>
     unat (minute d) \<le> 59 \<and> unat (hour d) \<le> 23 \<and>
     1 \<le> unat (day d) \<and> unat (day d) \<le> 31 \<and>
     1 \<le> unat (day_of_week d) \<and>
     1 \<le> unat (month d) \<and> unat (month d) \<le> 12 \<and>
     unat (decode_bcd (raw_year d)) \<le> 99 \<and> unat (year d) \<le> 2099"
proof -
  have flags: "raw_minute_start d = 0" "raw_time_start d = 1" "raw_cest d \<noteq> raw_cet d"
    using assms by (simp_all add: valid_def)
  have cc: "raw_cest d = 1 \<and> raw_cet d = 0 \<or> raw_cest d = 0 \<and> raw_cet d = 1"
    using flags(3) unfolding raw_cest_def raw_cet_def bitfield_1 by (rule of_bool_cases)
  have pm: "raw_parity_minute d = (if odd (ones_in d 21 28) then 1 else 0)"
    using assms popcount_bitfield [of 7 21 d]
    by (simp add: valid_def raw_minute_def parity_eq)
  have ph: "raw_parity_hour d = (if odd (ones_in d 29 35) then 1 else 0)"
    using assms popcount_bitfield [of 6 29 d]
    by (simp add: valid_def raw_hour_def parity_eq)
  have "raw_parity_date d = parity (ucast (drop_bit 32 (d AND 0x3FFFFF000000000)))"
    using assms unfolding valid_def by blast
  then have pd: "raw_parity_date d = (if odd (ones_in d 36 58) then 1 else 0)"
    unfolding parity_eq popcount_date by simp
  have v: "valid_bcd 5 9 (raw_minute d)" "valid_bcd 2 3 (raw_hour d)"
    "valid_bcd 3 1 (raw_day d)" "valid_bcd 1 2 (raw_month d)" "valid_bcd 9 9 (raw_year d)"
    "0 < raw_day d" "0 < raw_day_of_week d" "0 < raw_month d"
    using assms by (simp_all add: valid_def)
  have mi: "raw_minute d AND 0x0F \<le> 9" "drop_bit 4 (raw_minute d) \<le> 9" "unat (minute d) \<le> 59"
    using bcd_minute [of "raw_minute d"] v(1) by (simp_all add: bcd_in_range_def minute_def)
  have ho: "raw_hour d AND 0x0F \<le> 9" "drop_bit 4 (raw_hour d) \<le> 9" "unat (hour d) \<le> 23"
    using bcd_hour [of "raw_hour d"] v(2) by (simp_all add: bcd_in_range_def hour_def)
  have da: "raw_day d AND 0x0F \<le> 9" "drop_bit 4 (raw_day d) \<le> 9" "unat (day d) \<le> 31"
    "1 \<le> unat (day d)"
    using bcd_day [of "raw_day d"] v(3,6) u8_pos [of "decode_bcd (raw_day d)"]
    by (auto simp: bcd_in_range_def day_def)
  have mo: "raw_month d AND 0x0F \<le> 9" "drop_bit 4 (raw_month d) \<le> 9" "unat (month d) \<le> 12"
    "1 \<le> unat (month d)"
    using bcd_month [of "raw_month d"] v(4,8) u8_pos [of "decode_bcd (raw_month d)"]
    by (auto simp: bcd_in_range_def month_def)
  have ye: "raw_year d AND 0x0F \<le> 9" "drop_bit 4 (raw_year d) \<le> 9"
    "unat (decode_bcd (raw_year d)) \<le> 99"
    using bcd_year [of "raw_year d"] v(5) by (simp_all add: bcd_in_range_def)
  have dw: "1 \<le> unat (day_of_week d)"
    using v(7) u8_pos by (simp add: day_of_week_def)
  have "unat (ucast (decode_bcd (raw_year d)) :: u16) = unat (decode_bcd (raw_year d))"
    using unat_u8_bound [of "decode_bcd (raw_year d)"]
    by (simp add: unsigned_ucast_eq take_bit_eq_mod)
  then have y2: "unat (year d) \<le> 2099"
    using ye(3) by (simp add: year_def unat_word_ariths)
  show ?thesis
    using flags(1,2) cc pm ph pd mi ho da mo ye dw y2 by simp
qed

theorem valid_telegram_fields_witness:
  "valid False example_telegram \<and>
   raw_minute_start example_telegram = 0 \<and> raw_time_start example_telegram = 1 \<and>
   raw_cest example_telegram = 0 \<and> raw_cet example_telegram = 1 \<and>
   raw_parity_date example_telegram = (if odd (ones_in example_telegram 36 58) then 1 else 0) \<and>
   unat (minute example_telegram) \<le> 59 \<and> unat (hour example_telegram) \<le> 23 \<and>
   1 \<le> unat (day example_telegram) \<and> unat (day example_telegram) \<le> 31 \<and>
   1 \<le> unat (day_of_week example_telegram) \<and>
   1 \<le> unat (month example_telegram) \<and> unat (month example_telegram) \<le> 12 \<and>
   unat (year example_telegram) \<le> 2099"
proof -
  have c: "raw_cet example_telegram = 1" by code_simp
  show ?thesis
    using example_telegram_valid valid_telegram_fields [OF example_telegram_valid] c by simp
qed

end
